theory Spec2Isabelle
  imports Complex_Main "HOL-Library.Word" "HOL-Library.AList" "HOL-Library.Sublist"
    "HOL-Library.Multiset"
begin

section \<open>Strings\<close>

text \<open>
  A Python \<^verbatim>\<open>str\<close> is a sequence of Unicode code points; it is modelled as the list of
  its code points. \<open>py\<close> turns an ASCII literal into such a string.
\<close>

type_synonym pystr = "nat list"

definition py :: "string \<Rightarrow> pystr" where
  "py s = map of_char s"

text \<open>
  The code points for which \<^verbatim>\<open>str.isspace\<close> holds. \<^verbatim>\<open>str.strip()\<close> and the
  class \<^verbatim>\<open>\s\<close> of a \<^verbatim>\<open>str\<close> pattern both use this set.
\<close>

definition is_space :: "nat \<Rightarrow> bool" where
  "is_space c \<longleftrightarrow>
     (9 \<le> c \<and> c \<le> 13) \<or> (28 \<le> c \<and> c \<le> 32) \<or> c = 0x85 \<or> c = 0xA0 \<or> c = 0x1680 \<or>
     (0x2000 \<le> c \<and> c \<le> 0x200A) \<or> c = 0x2028 \<or> c = 0x2029 \<or> c = 0x202F \<or>
     c = 0x205F \<or> c = 0x3000"

definition is_upper :: "nat \<Rightarrow> bool" where
  "is_upper c \<longleftrightarrow> 65 \<le> c \<and> c \<le> 90"

definition is_lower :: "nat \<Rightarrow> bool" where
  "is_lower c \<longleftrightarrow> 97 \<le> c \<and> c \<le> 122"

definition is_digit :: "nat \<Rightarrow> bool" where
  "is_digit c \<longleftrightarrow> 48 \<le> c \<and> c \<le> 57"

text \<open>\<^verbatim>\<open>str.strip()\<close>: leading and trailing whitespace removed.\<close>

definition py_strip :: "pystr \<Rightarrow> pystr" where
  "py_strip s = rev (dropWhile is_space (rev (dropWhile is_space s)))"

text \<open>
  \<^verbatim>\<open>re.sub(p + "+", "_", s)\<close> for a one-character class \<open>p\<close>: every maximal run of
  characters of the class is replaced by one underscore.
\<close>

function sub_runs :: "(nat \<Rightarrow> bool) \<Rightarrow> pystr \<Rightarrow> pystr" where
  "sub_runs p [] = []"
| "sub_runs p (c # cs) =
     (if p c then 95 # sub_runs p (dropWhile p cs) else c # sub_runs p cs)"
  by pat_completeness auto
termination
  by (relation "measure (\<lambda>(p, s). length s)")
    (auto simp: length_dropWhile_le less_Suc_eq_le)

text \<open>
  \<^verbatim>\<open>str.lower()\<close> on a character. The program lowers only strings already restricted
  to ASCII letters, digits, underscore and hyphen, where lowering maps \<open>A\<close>..\<open>Z\<close> to
  \<open>a\<close>..\<open>z\<close> and leaves the rest.
\<close>

definition lower_char :: "nat \<Rightarrow> nat" where
  "lower_char c = (if is_upper c then c + 32 else c)"

definition py_lower :: "pystr \<Rightarrow> pystr" where
  "py_lower s = map lower_char s"

section \<open>Identity sanitization\<close>

text \<open>The class \<^verbatim>\<open>[a-zA-Z0-9_-]\<close> of \<^verbatim>\<open>sanitize_username\<close>.\<close>

definition name_char :: "nat \<Rightarrow> bool" where
  "name_char c \<longleftrightarrow> is_lower c \<or> is_upper c \<or> is_digit c \<or> c = 95 \<or> c = 45"

text \<open>
  \<^verbatim>\<open>sanitize_username\<close>, lines 57 to 62. \<open>None\<close> is Python's \<^verbatim>\<open>None\<close>;
  \<^verbatim>\<open>not name\<close> holds for \<^verbatim>\<open>None\<close> and for the empty string, and
  \<^verbatim>\<open>x or "anon"\<close> is \<^verbatim>\<open>"anon"\<close> when \<open>x\<close> is empty.
\<close>

definition sanitize_username :: "pystr option \<Rightarrow> pystr" where
  "sanitize_username name =
     (case name of
        None \<Rightarrow> py ''anon''
      | Some s \<Rightarrow>
          if s = [] then py ''anon''
          else
            let name1 = sub_runs is_space (py_strip s);
                name2 = filter name_char name1;
                name3 = py_lower name2
            in if name3 = [] then py ''anon'' else name3)"

section \<open>Audio buffers\<close>

type_synonym bytes = "8 word list"

text \<open>
  The array \<^verbatim>\<open>sf.read(..., dtype="float32", always_2d=False)\<close> returns: one-dimensional
  (the samples) for a single channel, two-dimensional (frames by channels, one row per
  frame) for several. A \<^verbatim>\<open>float32\<close> sample is modelled by the real number it denotes;
  rounding, infinities and NaN are outside the model.
\<close>

datatype ndarray = Arr1 "real list" | Arr2 "real list list"

fun ndim :: "ndarray \<Rightarrow> nat" where
  "ndim (Arr1 xs) = 1"
| "ndim (Arr2 rows) = 2"

text \<open>\<^verbatim>\<open>audio.size\<close>: the number of elements.\<close>

fun nd_size :: "ndarray \<Rightarrow> nat" where
  "nd_size (Arr1 xs) = length xs"
| "nd_size (Arr2 rows) = sum_list (map length rows)"

definition TARGET_SR :: int where
  "TARGET_SR = 16000"

definition SPELLS :: "pystr list" where
  "SPELLS = [py ''Lumos'', py ''Nox'', py ''Alohomora'', py ''Wingardium Leviosa'',
             py ''Accio'', py ''Reparo'']"

text \<open>\<^verbatim>\<open>row.mean()\<close> of one frame: the sum of its channels over their number.\<close>

definition mean :: "real list \<Rightarrow> real" where
  "mean r = sum_list r / real (length r)"

text \<open>
  \<^verbatim>\<open>to_mono\<close>, lines 65 to 68: \<^verbatim>\<open>audio.mean(axis=1)\<close> when \<^verbatim>\<open>audio.ndim == 2\<close>, the
  array itself otherwise. The result is one-dimensional in both cases and is given as
  the list of its samples.
\<close>

fun to_mono :: "ndarray \<Rightarrow> real list" where
  "to_mono (Arr2 rows) = map mean rows"
| "to_mono (Arr1 xs) = xs"

text \<open>\<^verbatim>\<open>np.clip(audio, lo, hi)\<close>, elementwise \<^verbatim>\<open>minimum(maximum(x, lo), hi)\<close>.\<close>

definition clip :: "real \<Rightarrow> real \<Rightarrow> real \<Rightarrow> real" where
  "clip lo hi x = min (max x lo) hi"

definition np_clip :: "real list \<Rightarrow> real \<Rightarrow> real \<Rightarrow> real list" where
  "np_clip audio lo hi = map (clip lo hi) audio"

text \<open>
  \<^verbatim>\<open>astype(np.int16)\<close> of a float: the fraction is dropped (rounding towards zero) and
  the integer is stored in 16 bits; \<open>word_of_int\<close> wraps an integer that does not fit.
\<close>

definition trunc :: "real \<Rightarrow> int" where
  "trunc x = (if 0 \<le> x then \<lfloor>x\<rfloor> else \<lceil>x\<rceil>)"

definition astype_int16 :: "real \<Rightarrow> 16 word" where
  "astype_int16 x = word_of_int (trunc x)"

text \<open>Line 92: \<^verbatim>\<open>(audio * 32767.0).astype(np.int16)\<close>.\<close>

definition quantize :: "real \<Rightarrow> 16 word" where
  "quantize x = astype_int16 (x * 32767)"

definition to_pcm16 :: "real list \<Rightarrow> 16 word list" where
  "to_pcm16 audio = map quantize audio"

section \<open>Exceptions and the WAV writer\<close>

text \<open>A raised exception, with the text that \<^verbatim>\<open>str(e)\<close> gives.\<close>

datatype exn = Exception pystr

fun exn_msg :: "exn \<Rightarrow> pystr" where
  "exn_msg (Exception m) = m"

text \<open>
  \<^verbatim>\<open>struct.pack("<H", n)\<close> and \<^verbatim>\<open>struct.pack("<I", n)\<close>: the two and the four low
  bytes of \<open>n\<close>, least significant first.
\<close>

definition pack_H :: "nat \<Rightarrow> bytes" where
  "pack_H n = [word_of_nat (n mod 256), word_of_nat (n div 256 mod 256)]"

definition pack_I :: "nat \<Rightarrow> bytes" where
  "pack_I n = pack_H (n mod 65536) @ pack_H (n div 65536 mod 65536)"

definition ascii :: "string \<Rightarrow> bytes" where
  "ascii s = map of_char s"

text \<open>The two bytes of an \<^verbatim>\<open>int16\<close> sample, low byte first.\<close>

definition int16_le :: "16 word \<Rightarrow> bytes" where
  "int16_le x = pack_H (unat x)"

text \<open>
  \<^verbatim>\<open>scipy.io.wavfile.write(buf, rate, data)\<close> followed by \<^verbatim>\<open>buf.getvalue()\<close>, for a
  one-dimensional \<^verbatim>\<open>int16\<close> array, the only kind the program passes. The routine is a
  library call; the model follows the file it writes: the RIFF header, a 16-byte
  \<^verbatim>\<open>fmt\<close> chunk with format tag 1 (PCM), one channel, the rate, the byte rate, the
  block size and 16 bits per sample, then the \<^verbatim>\<open>data\<close> chunk with the samples least
  significant byte first. It raises when a header field does not fit its width or the
  file would pass the 4 GiB limit of the format.
\<close>

definition wav_write :: "int \<Rightarrow> 16 word list \<Rightarrow> exn + bytes" where
  "wav_write rate data =
     (let nbytes = 2 * length data in
      if rate < 0 \<or> 2 ^ 32 \<le> rate * 2 then
        Inl (Exception (py ''argument out of range''))
      else if 36 + nbytes > 0xFFFFFFFF then
        Inl (Exception (py ''Data exceeds wave file size limit''))
      else
        Inr (ascii ''RIFF'' @ pack_I (36 + nbytes) @ ascii ''WAVE'' @
             ascii ''fmt '' @ pack_I 16 @ pack_H 1 @ pack_H 1 @
             pack_I (nat rate) @ pack_I (nat rate * 2) @ pack_H 2 @ pack_H 16 @
             ascii ''data'' @ pack_I nbytes @ concat (map int16_le data)))"

section \<open>The store and the environment\<close>

text \<open>The arguments of one \<^verbatim>\<open>fs.put\<close> call, lines 103 to 111.\<close>

record metadata =
  md_username :: pystr
  md_spell :: pystr
  md_timestamp_ms :: int
  md_sample_rate :: int
  md_format :: pystr

record put_request =
  pr_data :: bytes
  pr_filename :: pystr
  pr_contentType :: pystr
  pr_metadata :: metadata

text \<open>
  What the program changes: the two module globals (\<open>True\<close> when not \<^verbatim>\<open>None\<close>), the
  calls of \<^verbatim>\<open>fs.put\<close> made so far, each with what it raised or the \<^verbatim>\<open>str\<close> of the
  identifier it returned, and the messages shown with \<^verbatim>\<open>st.error\<close>.
\<close>

record world =
  mongo_client :: bool
  mongo_fs :: bool
  put_log :: "(put_request \<times> (exn + pystr)) list"
  st_errors :: "pystr list"

text \<open>
  What the program does not decide: the configured connection string and the outcome
  of each library call. \<open>sf_read\<close> is the decoder (the array, or \<^verbatim>\<open>None\<close>, and the
  sample rate); \<open>resample_poly\<close> is scipy's polyphase resampler on a one-dimensional
  array, which returns a one-dimensional array; \<open>MongoClient\<close> and \<open>GridFS\<close> are the
  two constructors of \<^verbatim>\<open>get_gridfs\<close> (\<open>Some e\<close> when they raise); \<open>time_ms\<close> is
  \<^verbatim>\<open>int(time.time() * 1000)\<close>; \<open>fs_put\<close> is the store's write. The last four may depend
  on everything that happened before.
\<close>

record env =
  MONGO_URI :: pystr
  sf_read :: "bytes \<Rightarrow> exn + (ndarray option \<times> int)"
  resample_poly :: "real list \<Rightarrow> int \<Rightarrow> int \<Rightarrow> exn + real list"
  MongoClient :: "world \<Rightarrow> exn option"
  GridFS :: "world \<Rightarrow> exn option"
  time_ms :: "world \<Rightarrow> int"
  fs_put :: "world \<Rightarrow> put_request \<Rightarrow> exn + pystr"

text \<open>
  \<^verbatim>\<open>get_gridfs\<close>, lines 45 to 54. The handle carries no information of its own, so
  \<^verbatim>\<open>Optional[GridFS]\<close> is \<open>unit option\<close>.
\<close>

definition get_gridfs :: "env \<Rightarrow> world \<Rightarrow> (exn + unit option) \<times> world" where
  "get_gridfs env w =
     (if MONGO_URI env = [] then (Inr None, w)
      else if mongo_fs w then (Inr (Some ()), w)
      else
        (case MongoClient env w of
           Some e \<Rightarrow> (Inl e, w)
         | None \<Rightarrow>
             let w1 = w\<lparr>mongo_client := True\<rparr> in
             (case GridFS env w1 of
                Some e \<Rightarrow> (Inl e, w1)
              | None \<Rightarrow> (Inr (Some ()), w1\<lparr>mongo_fs := True\<rparr>))))"

section \<open>Normalizing and storing one recording\<close>

text \<open>\<^verbatim>\<open>resample_to_target\<close>, lines 71 to 77; \<^verbatim>\<open>//\<close> is \<open>div\<close> and \<^verbatim>\<open>math.gcd\<close> is \<open>gcd\<close>.\<close>

definition resample_to_target :: "env \<Rightarrow> real list \<Rightarrow> int \<Rightarrow> int \<Rightarrow> exn + real list" where
  "resample_to_target env audio sr target_sr =
     (if sr = target_sr then Inr audio
      else
        let g = gcd sr target_sr;
            up = target_sr div g;
            down = sr div g
        in resample_poly env audio up down)"

text \<open>
  Lines 83 to 95 of \<^verbatim>\<open>save_audio_to_mongo\<close>: from the uploaded bytes to the WAV bytes.
  \<open>Inl e\<close> is an exception, \<open>Inr None\<close> the early \<^verbatim>\<open>return None\<close> of line 85.
\<close>

definition normalize_audio :: "env \<Rightarrow> bytes \<Rightarrow> exn + bytes option" where
  "normalize_audio env audio_bytes =
     (case sf_read env audio_bytes of
        Inl e \<Rightarrow> Inl e
      | Inr (audio, sr) \<Rightarrow>
          (case audio of
             None \<Rightarrow> Inr None
           | Some a \<Rightarrow>
               if nd_size a = 0 then Inr None
               else
                 (case resample_to_target env (to_mono a) sr TARGET_SR of
                   Inl e \<Rightarrow> Inl e
                 | Inr audio2 \<Rightarrow>
                     let audio3 = np_clip audio2 (-1) 1;
                         pcm16 = to_pcm16 audio3
                     in (case wav_write TARGET_SR pcm16 of
                           Inl e \<Rightarrow> Inl e
                         | Inr wav_bytes \<Rightarrow> Inr (Some wav_bytes)))))"

text \<open>\<^verbatim>\<open>str(n)\<close> of an integer.\<close>

fun digits :: "nat \<Rightarrow> pystr" where
  "digits n = (if n < 10 then [48 + n] else digits (n div 10) @ [48 + n mod 10])"

definition str_int :: "int \<Rightarrow> pystr" where
  "str_int i = (if i < 0 then 45 # digits (nat (- i)) else digits (nat i))"

text \<open>Line 102: \<^verbatim>\<open>re.sub(r"[^a-zA-Z0-9]+", "_", spell).strip("_").lower()\<close>.\<close>

definition is_alnum :: "nat \<Rightarrow> bool" where
  "is_alnum c \<longleftrightarrow> is_lower c \<or> is_upper c \<or> is_digit c"

definition slug :: "pystr \<Rightarrow> pystr" where
  "slug spell =
     py_lower (rev (dropWhile (\<lambda>c. c = 95) (rev (dropWhile (\<lambda>c. c = 95)
       (sub_runs (\<lambda>c. \<not> is_alnum c) spell)))))"

definition make_request :: "bytes \<Rightarrow> pystr \<Rightarrow> pystr \<Rightarrow> int \<Rightarrow> put_request" where
  "make_request wav_bytes spell username ts =
     \<lparr>pr_data = wav_bytes,
      pr_filename = slug spell @ [95] @ username @ [95] @ str_int ts @ py ''.wav'',
      pr_contentType = py ''audio/wav'',
      pr_metadata = \<lparr>md_username = username, md_spell = spell, md_timestamp_ms = ts,
                     md_sample_rate = TARGET_SR, md_format = py ''wav''\<rparr>\<rparr>"

text \<open>
  The body of the \<^verbatim>\<open>try\<close> of \<^verbatim>\<open>save_audio_to_mongo\<close>, lines 83 to 112: \<open>Inl e\<close> when
  \<open>e\<close> is raised, \<open>Inr r\<close> when \<open>r\<close> is returned.
\<close>

definition save_audio_body ::
  "env \<Rightarrow> bytes \<Rightarrow> pystr \<Rightarrow> pystr \<Rightarrow> world \<Rightarrow> (exn + pystr option) \<times> world" where
  "save_audio_body env audio_bytes spell username w =
     (case normalize_audio env audio_bytes of
        Inl e \<Rightarrow> (Inl e, w)
      | Inr None \<Rightarrow> (Inr None, w)
      | Inr (Some wav_bytes) \<Rightarrow>
          (case get_gridfs env w of
             (Inl e, w1) \<Rightarrow> (Inl e, w1)
           | (Inr None, w1) \<Rightarrow> (Inr None, w1)
           | (Inr (Some fs), w1) \<Rightarrow>
               let ts = time_ms env w1;
                   req = make_request wav_bytes spell username ts;
                   res = fs_put env w1 req;
                   w2 = w1\<lparr>put_log := put_log w1 @ [(req, res)]\<rparr>
               in (case res of
                     Inl e \<Rightarrow> (Inl e, w2)
                   | Inr file_id \<Rightarrow> (Inr (Some file_id), w2))))"

text \<open>
  \<^verbatim>\<open>save_audio_to_mongo\<close>, lines 80 to 115: the body, with every exception caught,
  shown with \<^verbatim>\<open>st.error\<close> and turned into \<^verbatim>\<open>None\<close>.
\<close>

definition save_audio_to_mongo ::
  "env \<Rightarrow> bytes \<Rightarrow> pystr \<Rightarrow> pystr \<Rightarrow> world \<Rightarrow> pystr option \<times> world" where
  "save_audio_to_mongo env audio_bytes spell username w =
     (case save_audio_body env audio_bytes spell username w of
        (Inl e, w1) \<Rightarrow>
          (None, w1\<lparr>st_errors := st_errors w1 @ [py ''Error processing audio: '' @ exn_msg e]\<rparr>)
      | (Inr r, w1) \<Rightarrow> (r, w1))"

section \<open>The submission\<close>

text \<open>Line 173: \<^verbatim>\<open>f"{spell} \<rightarrow> id {file_id}"\<close>, the arrow being U+2192.\<close>

definition saved_entry :: "pystr \<Rightarrow> pystr \<Rightarrow> pystr" where
  "saved_entry spell file_id = spell @ [32, 0x2192, 32] @ py ''id '' @ file_id"

text \<open>
  Lines 137 to 150: the dictionary of the recordings, built label by label from the
  value of each label's recorder (\<open>None\<close> when nothing was recorded). A dictionary is
  an association list with distinct keys, in insertion order.
\<close>

fun collect_audio :: "(pystr \<Rightarrow> bytes option) \<Rightarrow> pystr list \<Rightarrow> (pystr \<times> bytes) list
    \<Rightarrow> (pystr \<times> bytes) list" where
  "collect_audio audio_input [] audio_files = audio_files"
| "collect_audio audio_input (spell # rest) audio_files =
     (case audio_input spell of
        Some audio_file \<Rightarrow> collect_audio audio_input rest (AList.update spell audio_file audio_files)
      | None \<Rightarrow> collect_audio audio_input rest audio_files)"

text \<open>
  The loop of lines 168 to 177 over the labels still to be processed; the state is
  the world and the two lists. \<^verbatim>\<open>if file_id\<close> fails for \<^verbatim>\<open>None\<close> and for the empty
  string.
\<close>

fun process_spells :: "env \<Rightarrow> pystr \<Rightarrow> (pystr \<times> bytes) list \<Rightarrow> pystr list
    \<Rightarrow> world \<times> pystr list \<times> pystr list \<Rightarrow> world \<times> pystr list \<times> pystr list" where
  "process_spells env user audio_files [] st = st"
| "process_spells env user audio_files (spell # rest) (w, saved, skipped) =
     (case map_of audio_files spell of
        Some audio_bytes \<Rightarrow>
          (case save_audio_to_mongo env audio_bytes spell user w of
             (Some file_id, w1) \<Rightarrow>
               if file_id \<noteq> [] then
                 process_spells env user audio_files rest
                   (w1, saved @ [saved_entry spell file_id], skipped)
               else process_spells env user audio_files rest (w1, saved, skipped @ [spell])
           | (None, w1) \<Rightarrow>
               process_spells env user audio_files rest (w1, saved, skipped @ [spell]))
      | None \<Rightarrow> process_spells env user audio_files rest (w, saved, skipped @ [spell]))"

text \<open>
  What one run of \<^verbatim>\<open>main\<close> does with a submission: nothing when the button was not
  pressed, a rejection, or the report of the saved entries and the skipped labels.
\<close>

datatype outcome = NoSubmit | Rejected | Report "pystr list" "pystr list"

text \<open>
  \<^verbatim>\<open>main\<close>, lines 132 to 190, with the values of the widgets as arguments: the text
  of the name field, the recording of each label and whether the button was pressed.
  The messages of \<^verbatim>\<open>st.error\<close> go to the world; the rest of the page is display of
  the report and is not modelled.
\<close>

definition main :: "env \<Rightarrow> pystr \<Rightarrow> (pystr \<Rightarrow> bytes option) \<Rightarrow> bool \<Rightarrow> world
    \<Rightarrow> outcome \<times> world" where
  "main env username audio_input clicked w =
     (let audio_files = collect_audio audio_input SPELLS [];
          selected_count = length audio_files
      in
        if clicked then
          (if py_strip username = [] then
             (Rejected, w\<lparr>st_errors := st_errors w @ [py ''Please enter your name'']\<rparr>)
           else if selected_count = 0 then
             (Rejected, w\<lparr>st_errors := st_errors w @
                [py ''Please upload at least one spell recording'']\<rparr>)
           else
             let user = sanitize_username (Some username) in
             (case process_spells env user audio_files SPELLS (w, [], []) of
                (w1, saved, skipped) \<Rightarrow> (Report saved skipped, w1)))
        else (NoSubmit, w))"

section \<open>Notions used in the properties\<close>


text \<open>Reading a file back: a little-endian number and the \<open>n\<close> bytes at offset \<open>i\<close>.\<close>

fun le_nat :: "bytes \<Rightarrow> nat" where
  "le_nat [] = 0"
| "le_nat (b # bs) = unat b + 256 * le_nat bs"

definition bytes_at :: "nat \<Rightarrow> nat \<Rightarrow> 'a list \<Rightarrow> 'a list" where
  "bytes_at i n xs = take n (drop i xs)"

text \<open>
  What a reader of the file checks to accept it as an uncompressed WAV file with one
  channel of 16-bit PCM samples at the given rate: the RIFF and WAVE tags, the chunk
  sizes against the length of the file, and the fields of the format chunk (tag 1 for
  PCM, 1 channel, the rate, the byte rate, 2 bytes per frame, 16 bits per sample).
\<close>

definition wav_mono_pcm16 :: "nat \<Rightarrow> bytes \<Rightarrow> bool" where
  "wav_mono_pcm16 rate b \<longleftrightarrow>
     44 \<le> length b \<and>
     bytes_at 0 4 b = ascii ''RIFF'' \<and> le_nat (bytes_at 4 4 b) + 8 = length b \<and>
     bytes_at 8 4 b = ascii ''WAVE'' \<and>
     bytes_at 12 4 b = ascii ''fmt '' \<and> le_nat (bytes_at 16 4 b) = 16 \<and>
     le_nat (bytes_at 20 2 b) = 1 \<and> le_nat (bytes_at 22 2 b) = 1 \<and>
     le_nat (bytes_at 24 4 b) = rate \<and> le_nat (bytes_at 28 4 b) = 2 * rate \<and>
     le_nat (bytes_at 32 2 b) = 2 \<and> le_nat (bytes_at 34 2 b) = 16 \<and>
     bytes_at 36 4 b = ascii ''data'' \<and> le_nat (bytes_at 40 4 b) + 44 = length b \<and>
     even (length b)"

text \<open>The calls of \<^verbatim>\<open>fs.put\<close> made between two worlds.\<close>

definition new_puts :: "world \<Rightarrow> world \<Rightarrow> (put_request \<times> (exn + pystr)) list" where
  "new_puts w w1 = drop (length (put_log w)) (put_log w1)"

text \<open>A recording that lines 83 to 95 turn into WAV bytes.\<close>

definition valid_recording :: "env \<Rightarrow> bytes \<Rightarrow> bool" where
  "valid_recording env b = (case normalize_audio env b of Inr (Some wav_bytes) \<Rightarrow> True | _ \<Rightarrow> False)"

text \<open>
  A reachable store: a connection string is configured, the constructors do not
  raise, and every write returns an identifier (whose \<^verbatim>\<open>str\<close> is never empty).
\<close>

definition store_reachable :: "env \<Rightarrow> bool" where
  "store_reachable env \<longleftrightarrow>
     MONGO_URI env \<noteq> [] \<and> (\<forall>w. MongoClient env w = None) \<and> (\<forall>w. GridFS env w = None) \<and>
     (\<forall>w req. case fs_put env w req of Inl e \<Rightarrow> False | Inr file_id \<Rightarrow> file_id \<noteq> [])"

text \<open>
  The loop of \<open>process_spells\<close> once more, keeping for every label what the loop saw:
  \<open>None\<close> for a label without a recording, the result of \<open>save_audio_to_mongo\<close>
  otherwise. The two lists of the report are read off these results.
\<close>

fun item_results :: "env \<Rightarrow> pystr \<Rightarrow> (pystr \<times> bytes) list \<Rightarrow> pystr list \<Rightarrow> world
    \<Rightarrow> (pystr \<times> pystr option) list \<times> world" where
  "item_results env user audio_files [] w = ([], w)"
| "item_results env user audio_files (spell # rest) w =
     (case map_of audio_files spell of
        Some audio_bytes \<Rightarrow>
          (case save_audio_to_mongo env audio_bytes spell user w of
             (r, w1) \<Rightarrow>
               (case item_results env user audio_files rest w1 of
                  (rs, w2) \<Rightarrow> ((spell, r) # rs, w2)))
      | None \<Rightarrow>
          (case item_results env user audio_files rest w of
             (rs, w2) \<Rightarrow> ((spell, None) # rs, w2)))"

fun saved_pairs :: "(pystr \<times> pystr option) list \<Rightarrow> (pystr \<times> pystr) list" where
  "saved_pairs [] = []"
| "saved_pairs ((spell, Some file_id) # rs) =
     (if file_id \<noteq> [] then (spell, file_id) # saved_pairs rs else saved_pairs rs)"
| "saved_pairs ((spell, None) # rs) = saved_pairs rs"

fun skipped_labels :: "(pystr \<times> pystr option) list \<Rightarrow> pystr list" where
  "skipped_labels [] = []"
| "skipped_labels ((spell, Some file_id) # rs) =
     (if file_id \<noteq> [] then skipped_labels rs else spell # skipped_labels rs)"
| "skipped_labels ((spell, None) # rs) = spell # skipped_labels rs"

text \<open>
  An environment and a world to run the program on: a store that is configured and
  accepts every write, a decoder that rejects the empty upload and otherwise returns
  two stereo frames at 16 kHz, and a resampler that repeats its input.
\<close>

definition example_env :: env where
  "example_env =
     \<lparr>MONGO_URI = py ''mongodb://db'',
      sf_read = (\<lambda>b. if b = [] then Inl (Exception (py ''Format not recognised''))
                     else Inr (Some (Arr2 [[1 / 2, 1], [3, 3]]), 16000)),
      resample_poly = (\<lambda>audio up down. Inr audio),
      MongoClient = (\<lambda>w. None),
      GridFS = (\<lambda>w. None),
      time_ms = (\<lambda>w. 1234),
      fs_put = (\<lambda>w req. Inr (py ''65f0c0ffee''))\<rparr>"

definition example_world :: world where
  "example_world = \<lparr>mongo_client = False, mongo_fs = False, put_log = [], st_errors = []\<rparr>"

section \<open>Properties\<close>

lemmas str_defs = py_def py_strip_def py_lower_def lower_char_def name_char_def
  is_space_def is_upper_def is_lower_def is_digit_def is_alnum_def

subsection \<open>Sanitization\<close>





lemma name_char_lower:
  "(is_lower (lower_char c) \<or> is_digit (lower_char c) \<or> lower_char c = 95 \<or> lower_char c = 45)
     = name_char c"
  by (auto simp: name_char_def lower_char_def is_upper_def is_lower_def is_digit_def)




lemma sanitize_nonempty: "sanitize_username name \<noteq> []"
  by (simp add: sanitize_username_def py_def Let_def split: option.split)

lemma lowered_name_char:
  "c \<in> set (py_lower (filter name_char xs)) \<Longrightarrow> is_lower c \<or> is_digit c \<or> c = 95 \<or> c = 45"
  using name_char_lower by (auto simp: py_lower_def)

lemma anon_chars: "c \<in> set (py ''anon'') \<Longrightarrow> is_lower c"
  by (auto simp: py_def is_lower_def)

lemma sanitize_charset:
  "c \<in> set (sanitize_username name) \<Longrightarrow> is_lower c \<or> is_digit c \<or> c = 95 \<or> c = 45"
  unfolding sanitize_username_def Let_def
  by (auto split: option.splits if_splits dest: lowered_name_char anon_chars)

lemma dropWhile_none: "\<forall>c\<in>set s. \<not> p c \<Longrightarrow> dropWhile p s = s"
  by (cases s) auto

lemma strip_nonspace: "\<forall>c\<in>set s. \<not> is_space c \<Longrightarrow> py_strip s = s"
  by (simp add: py_strip_def dropWhile_none)

lemma sub_runs_none: "\<forall>c\<in>set s. \<not> p c \<Longrightarrow> sub_runs p s = s"
  by (induction s) auto

lemma sanitize_all_dropped:
  "\<forall>c\<in>set s. \<not> is_space c \<and> \<not> name_char c \<Longrightarrow> sanitize_username (Some s) = py ''anon''"
  by (cases "s = []")
    (auto simp: sanitize_username_def strip_nonspace sub_runs_none Let_def py_lower_def
      filter_empty_conv)

subsection \<open>Channel reduction\<close>



subsection \<open>Sample-rate conversion\<close>

lemma rate_fraction:
  "(16000 div gcd sr 16000) * sr = (sr div gcd sr 16000) * (16000::int)"
proof -
  define g where "g = gcd sr 16000"
  have 1: "(16000 div g) * g = 16000" and 2: "(sr div g) * g = sr"
    by (simp_all add: g_def)
  have "(16000 div g) * sr = (16000 div g) * ((sr div g) * g)"
    by (simp only: 2)
  also have "\<dots> = (sr div g) * ((16000 div g) * g)"
    by (simp only: mult_ac)
  also have "\<dots> = (sr div g) * 16000"
    by (simp only: 1)
  finally show ?thesis by (simp only: g_def)
qed

lemma rate_fraction_reduced:
  "coprime (16000 div gcd sr 16000) (sr div gcd sr (16000::int))"
  using div_gcd_coprime [of 16000 sr] by (simp add: gcd.commute)

text \<open>
  C6: at 16000 Hz \<open>resample_to_target\<close> returns its input and does not call the
  resampler; at any other rate \<open>sr\<close> it is the polyphase resampler with the factors
  \<open>up = 16000 div gcd sr 16000\<close> and \<open>down = sr div gcd sr 16000\<close>, which have no common
  divisor and satisfy \<open>up / down = 16000 / sr\<close> (written \<open>up * sr = down * 16000\<close>).
\<close>

theorem resample_to_target_ratio:
  "TARGET_SR = 16000 \<and>
   resample_to_target env audio 16000 TARGET_SR = Inr audio \<and>
   (sr \<noteq> 16000 \<longrightarrow>
      resample_to_target env audio sr TARGET_SR =
        resample_poly env audio (16000 div gcd sr 16000) (sr div gcd sr 16000)) \<and>
   coprime (16000 div gcd sr 16000) (sr div gcd sr 16000) \<and>
   (16000 div gcd sr 16000) * sr = (sr div gcd sr 16000) * 16000"
  using rate_fraction [of sr] rate_fraction_reduced [of sr]
  by (simp add: resample_to_target_def TARGET_SR_def Let_def)

theorem resample_to_target_ratio_witness:
  "(48000::int) \<noteq> 16000 \<and>
   resample_to_target example_env [1 / 2] 48000 TARGET_SR =
     resample_poly example_env [1 / 2] 1 3"
  using resample_to_target_ratio [of example_env "[1 / 2]" 48000]
  by (simp add: gcd_proj2_if_dvd)

subsection \<open>Clamp and quantization\<close>











subsection \<open>The WAV writer\<close>

lemma le_nat_pack_H: "n < 65536 \<Longrightarrow> le_nat (pack_H n) = n"
  by (simp add: pack_H_def unat_of_nat)

lemma length_pack_H: "length (pack_H n) = 2"
  by (simp add: pack_H_def)

lemma le_nat_append: "le_nat (xs @ ys) = le_nat xs + 256 ^ length xs * le_nat ys"
  by (induction xs) (simp_all add: algebra_simps)

lemma le_nat_pack_I:
  assumes "n < 4294967296"
  shows "le_nat (pack_I n) = n"
proof -
  from assms have "n div 65536 < 65536"
    by simp
  then have "le_nat (pack_I n) = n mod 65536 + 65536 * (n div 65536)"
    by (simp add: pack_I_def le_nat_append le_nat_pack_H length_pack_H)
  then show ?thesis
    by simp
qed

lemma length_pack_I: "length (pack_I n) = 4"
  by (simp add: pack_I_def length_pack_H)

lemma length_int16_data: "length (concat (map int16_le data)) = 2 * length data"
  by (induction data) (simp_all add: int16_le_def length_pack_H)

lemma bytes_at_here: "length xs = n \<Longrightarrow> bytes_at 0 n (xs @ ys) = xs"
  by (simp add: bytes_at_def)

lemma bytes_at_skip: "length xs = k \<Longrightarrow> k \<le> i \<Longrightarrow> bytes_at i n (xs @ ys) = bytes_at (i - k) n ys"
  by (simp add: bytes_at_def)

lemma length_ascii: "length (ascii s) = length s"
  by (simp add: ascii_def)

lemma wav_write_canonical:
  assumes "wav_write TARGET_SR data = Inr b"
  shows "wav_mono_pcm16 16000 b"
proof -
  let ?n = "2 * length data"
  have small: "36 + ?n < 4294967296"
    using assms by (simp add: wav_write_def TARGET_SR_def Let_def split: if_splits)
  have b: "b = ascii ''RIFF'' @ pack_I (36 + ?n) @ ascii ''WAVE'' @
             ascii ''fmt '' @ pack_I 16 @ pack_H 1 @ pack_H 1 @
             pack_I 16000 @ pack_I 32000 @ pack_H 2 @ pack_H 16 @
             ascii ''data'' @ pack_I ?n @ concat (map int16_le data)"
    using assms by (simp add: wav_write_def TARGET_SR_def Let_def split: if_splits)
  have len: "length b = 44 + ?n"
    by (simp add: b length_pack_I length_pack_H length_ascii length_int16_data)
  show ?thesis
    unfolding wav_mono_pcm16_def len
    using small
    by (simp add: b bytes_at_here bytes_at_skip length_pack_I length_pack_H length_ascii
        le_nat_pack_I le_nat_pack_H)
qed

lemma normalize_audio_wav:
  "normalize_audio env b = Inr (Some wav) \<Longrightarrow> \<exists>pcm16. wav_write TARGET_SR pcm16 = Inr wav"
  unfolding normalize_audio_def Let_def
  by (auto split: sum.splits option.splits prod.splits if_splits)

lemma normalize_canonical:
  "normalize_audio env b = Inr (Some wav) \<Longrightarrow> wav_mono_pcm16 16000 wav"
  using normalize_audio_wav wav_write_canonical by blast

subsection \<open>One recording\<close>

lemma get_gridfs_log:
  "get_gridfs env w = (x, w1) \<Longrightarrow> put_log w1 = put_log w \<and> st_errors w1 = st_errors w"
  by (auto simp: get_gridfs_def Let_def split: if_splits option.splits)

lemma save_audio_body_cases:
  assumes "save_audio_body env b spell user w = (x, w1)"
  shows "(put_log w1 = put_log w \<and> (case x of Inl e \<Rightarrow> True | Inr r \<Rightarrow> r = None)) \<or>
         (\<exists>wav ts res. normalize_audio env b = Inr (Some wav) \<and>
            put_log w1 = put_log w @ [(make_request wav spell user ts, res)] \<and>
            x = (case res of Inl e \<Rightarrow> Inl e | Inr file_id \<Rightarrow> Inr (Some file_id)))"
proof (cases "normalize_audio env b")
  case (Inl e)
  then show ?thesis using assms by (auto simp: save_audio_body_def)
next
  case (Inr r)
  show ?thesis
  proof (cases r)
    case None
    then show ?thesis using assms Inr by (auto simp: save_audio_body_def)
  next
    case (Some wav)
    obtain g w0 where g: "get_gridfs env w = (g, w0)"
      by (cases "get_gridfs env w")
    note l = get_gridfs_log [OF g]
    show ?thesis
    proof (cases g)
      case (Inl e)
      then show ?thesis using assms Inr Some g l by (auto simp: save_audio_body_def)
    next
      case g': (Inr h)
      show ?thesis
      proof (cases h)
        case None
        then show ?thesis using assms Inr Some g g' l by (auto simp: save_audio_body_def)
      next
        case h: (Some u)
        show ?thesis
          using assms Inr Some g g' h l
          by (cases "fs_put env w0 (make_request wav spell user (time_ms env w0))")
            (auto simp: save_audio_body_def Let_def)
      qed
    qed
  qed
qed

lemma save_audio_to_mongo_cases:
  assumes "save_audio_to_mongo env b spell user w = (r, w1)"
  shows "(put_log w1 = put_log w \<and> r = None) \<or>
         (\<exists>wav ts res. normalize_audio env b = Inr (Some wav) \<and>
            put_log w1 = put_log w @ [(make_request wav spell user ts, res)] \<and>
            r = (case res of Inl e \<Rightarrow> None | Inr file_id \<Rightarrow> Some file_id))"
proof -
  obtain x w0 where x: "save_audio_body env b spell user w = (x, w0)"
    by (cases "save_audio_body env b spell user w")
  have l: "put_log w1 = put_log w0" and r: "r = (case x of Inl e \<Rightarrow> None | Inr r' \<Rightarrow> r')"
    using assms x by (auto simp: save_audio_to_mongo_def split: sum.splits)
  from save_audio_body_cases [OF x] show ?thesis
  proof
    assume "put_log w0 = put_log w \<and> (case x of Inl e \<Rightarrow> True | Inr r \<Rightarrow> r = None)"
    then show ?thesis using l r by (auto split: sum.splits)
  next
    assume "\<exists>wav ts res. normalize_audio env b = Inr (Some wav) \<and>
            put_log w0 = put_log w @ [(make_request wav spell user ts, res)] \<and>
            x = (case res of Inl e \<Rightarrow> Inl e | Inr file_id \<Rightarrow> Inr (Some file_id))"
    then obtain wav ts res where *: "normalize_audio env b = Inr (Some wav)"
      "put_log w0 = put_log w @ [(make_request wav spell user ts, res)]"
      "x = (case res of Inl e \<Rightarrow> Inl e | Inr file_id \<Rightarrow> Inr (Some file_id))"
      by blast
    have "r = (case res of Inl e \<Rightarrow> None | Inr file_id \<Rightarrow> Some file_id)"
      using r *(3) by (auto split: sum.splits)
    then show ?thesis using * l by auto
  qed
qed

subsection \<open>The loop over the labels\<close>

lemma collect_audio_map_of:
  "map_of (collect_audio ai spells acc) k =
     (if k \<in> set spells \<and> ai k \<noteq> None then ai k else map_of acc k)"
  by (induction spells arbitrary: acc) (auto simp: update_conv' split: option.splits)

lemma update_not_Nil: "AList.update k v al \<noteq> []"
  by (cases al) auto

lemma collect_audio_Nil:
  "collect_audio ai spells acc = [] \<longleftrightarrow> acc = [] \<and> (\<forall>s\<in>set spells. ai s = None)"
  by (induction spells arbitrary: acc) (auto simp: update_not_Nil split: option.splits)

lemma process_spells_results:
  "process_spells env user files spells (w, saved, skipped) =
     (case item_results env user files spells w of
        (rs, w1) \<Rightarrow>
          (w1, saved @ map (\<lambda>(spell, file_id). saved_entry spell file_id) (saved_pairs rs),
           skipped @ skipped_labels rs))"
  by (induction spells arbitrary: w saved skipped)
    (auto split: option.splits prod.splits)

lemma item_results_labels: "item_results env user files spells w = (rs, w1) \<Longrightarrow> map fst rs = spells"
  by (induction spells arbitrary: w rs) (auto split: option.splits prod.splits)

lemma item_results_origin:
  "item_results env user files spells w = (rs, w1) \<Longrightarrow> (spell, r) \<in> set rs \<Longrightarrow>
     (case map_of files spell of
        None \<Rightarrow> r = None
      | Some b \<Rightarrow> \<exists>w'. r = fst (save_audio_to_mongo env b spell user w'))"
proof (induction spells arbitrary: w rs)
  case Nil
  then show ?case by simp
next
  case (Cons a spells)
  show ?case
  proof (cases "map_of files a")
    case None
    then obtain rs' where rs: "item_results env user files spells w = (rs', w1)" "rs = (a, None) # rs'"
      using Cons.prems(1) by (auto split: prod.splits)
    show ?thesis
    proof (cases "(spell, r) = (a, None)")
      case True
      then show ?thesis using None by simp
    next
      case False
      then have "(spell, r) \<in> set rs'" using Cons.prems(2) rs(2) by auto
      then show ?thesis using Cons.IH[OF rs(1)] by simp
    qed
  next
    case (Some b)
    then obtain r0 w0 rs' where rs: "save_audio_to_mongo env b a user w = (r0, w0)"
      "item_results env user files spells w0 = (rs', w1)" "rs = (a, r0) # rs'"
      using Cons.prems(1) by (auto split: prod.splits)
    show ?thesis
    proof (cases "(spell, r) = (a, r0)")
      case True
      then have "r = fst (save_audio_to_mongo env b spell user w)" using rs(1) by simp
      then show ?thesis using Some True by auto
    next
      case False
      then have "(spell, r) \<in> set rs'" using Cons.prems(2) rs(3) by auto
      then show ?thesis using Cons.IH[OF rs(2)] by simp
    qed
  qed
qed

lemma saved_pairs_subseq: "subseq (map fst (saved_pairs rs)) (map fst rs)"
  by (induction rs rule: saved_pairs.induct) auto

lemma skipped_labels_subseq: "subseq (skipped_labels rs) (map fst rs)"
  by (induction rs rule: skipped_labels.induct) auto

lemma saved_skipped_partition:
  "mset (map fst (saved_pairs rs)) + mset (skipped_labels rs) = mset (map fst rs)"
  by (induction rs rule: saved_pairs.induct) auto

lemma saved_pairs_mem:
  "(spell, file_id) \<in> set (saved_pairs rs) \<longleftrightarrow> (spell, Some file_id) \<in> set rs \<and> file_id \<noteq> []"
  by (induction rs rule: saved_pairs.induct) auto

lemma skipped_labels_mem:
  "spell \<in> set (skipped_labels rs) \<longleftrightarrow> (spell, None) \<in> set rs \<or> (spell, Some []) \<in> set rs"
  by (induction rs rule: skipped_labels.induct) auto

lemma save_log_grows:
  "save_audio_to_mongo env b spell user w = (r, w1) \<Longrightarrow>
     put_log w1 = put_log w @ new_puts w w1"
  using save_audio_to_mongo_cases [of env b spell user w r w1]
  by (auto simp: new_puts_def)

lemma save_new_puts:
  assumes "save_audio_to_mongo env b spell user w = (r, w1)"
    and "(req, res) \<in> set (new_puts w w1)"
  shows "normalize_audio env b = Inr (Some (pr_data req)) \<and>
         md_username (pr_metadata req) = user \<and> md_spell (pr_metadata req) = spell \<and>
         new_puts w w1 = [(req, res)] \<and>
         r = (case res of Inl e \<Rightarrow> None | Inr file_id \<Rightarrow> Some file_id)"
  using save_audio_to_mongo_cases [OF assms(1)] assms(2)
  by (auto simp: new_puts_def make_request_def)

lemma new_puts_trans:
  "put_log w1 = put_log w @ new_puts w w1 \<Longrightarrow> put_log w2 = put_log w1 @ new_puts w1 w2 \<Longrightarrow>
     put_log w2 = put_log w @ new_puts w w2 \<and> new_puts w w2 = new_puts w w1 @ new_puts w1 w2"
  by (metis append.assoc append_eq_conv_conj new_puts_def)

lemma new_puts_same: "new_puts w w = []"
  by (simp add: new_puts_def)

lemma item_results_log:
  "item_results env user files spells w = (rs, w1) \<Longrightarrow>
     put_log w1 = put_log w @ new_puts w w1 \<and>
     subseq (map (\<lambda>(req, res). md_spell (pr_metadata req)) (new_puts w w1)) spells \<and>
     (\<forall>(req, res) \<in> set (new_puts w w1).
        md_username (pr_metadata req) = user \<and>
        (\<exists>b. map_of files (md_spell (pr_metadata req)) = Some b \<and>
           normalize_audio env b = Inr (Some (pr_data req))))"
proof (induction spells arbitrary: w rs)
  case Nil
  then show ?case by (simp add: new_puts_same)
next
  case (Cons a spells)
  show ?case
  proof (cases "map_of files a")
    case None
    then obtain rs' where rs: "item_results env user files spells w = (rs', w1)"
      using Cons.prems by (auto split: prod.splits)
    from Cons.IH [OF rs] show ?thesis
      by (auto intro: subseq_Cons')
  next
    case (Some b)
    then obtain r0 w0 rs' where rs: "save_audio_to_mongo env b a user w = (r0, w0)"
      "item_results env user files spells w0 = (rs', w1)"
      using Cons.prems by (auto split: prod.splits)
    note g = save_log_grows [OF rs(1)]
    note ih = Cons.IH [OF rs(2)]
    from ih have g': "put_log w1 = put_log w0 @ new_puts w0 w1" by simp
    note t = new_puts_trans [OF g g']
    have first: "new_puts w w0 = [] \<or> (\<exists>req res. new_puts w w0 = [(req, res)] \<and>
        md_spell (pr_metadata req) = a \<and> md_username (pr_metadata req) = user \<and>
        normalize_audio env b = Inr (Some (pr_data req)))"
    proof (cases "new_puts w w0")
      case Nil
      then show ?thesis by simp
    next
      case (Cons p ps)
      obtain req res where p: "p = (req, res)" by (cases p)
      then have "(req, res) \<in> set (new_puts w w0)" using Cons by simp
      from save_new_puts [OF rs(1) this] show ?thesis by auto
    qed
    from first show ?thesis
    proof
      assume "new_puts w w0 = []"
      then show ?thesis using t ih by (auto intro: subseq_Cons')
    next
      assume "\<exists>req res. new_puts w w0 = [(req, res)] \<and>
        md_spell (pr_metadata req) = a \<and> md_username (pr_metadata req) = user \<and>
        normalize_audio env b = Inr (Some (pr_data req))"
      then obtain req res where *: "new_puts w w0 = [(req, res)]"
        "md_spell (pr_metadata req) = a" "md_username (pr_metadata req) = user"
        "normalize_audio env b = Inr (Some (pr_data req))"
        by blast
      show ?thesis using t ih * Some by auto
    qed
  qed
qed

lemma main_world:
  "snd (main env username audio_input clicked w) = w \<or>
   (\<exists>m. snd (main env username audio_input clicked w) = w\<lparr>st_errors := st_errors w @ [m]\<rparr>) \<or>
   (\<exists>rs. item_results env (sanitize_username (Some username))
       (collect_audio audio_input SPELLS []) SPELLS w =
       (rs, snd (main env username audio_input clicked w)))"
  by (auto simp: main_def Let_def process_spells_results split: prod.splits)

lemma main_puts:
  assumes "(req, res) \<in> set (new_puts w (snd (main env username audio_input clicked w)))"
  shows "md_username (pr_metadata req) = sanitize_username (Some username) \<and>
         wav_mono_pcm16 16000 (pr_data req)"
proof -
  let ?w1 = "snd (main env username audio_input clicked w)"
  from main_world [of env username audio_input clicked w]
  consider "put_log ?w1 = put_log w"
    | rs where "item_results env (sanitize_username (Some username))
       (collect_audio audio_input SPELLS []) SPELLS w = (rs, ?w1)"
    by auto
  then show ?thesis
  proof cases
    case 1
    then show ?thesis using assms by (simp add: new_puts_def)
  next
    case 2
    from item_results_log [OF 2] assms show ?thesis
      by (auto dest: normalize_canonical)
  qed
qed

lemmas run_defs = main_def save_audio_to_mongo_def save_audio_body_def normalize_audio_def
  get_gridfs_def resample_to_target_def wav_write_def TARGET_SR_def to_pcm16_def np_clip_def
  clip_def quantize_def astype_int16_def trunc_def ascii_def int16_le_def pack_I_def pack_H_def
  mean_def make_request_def slug_def str_int_def saved_entry_def sanitize_username_def
  SPELLS_def example_env_def example_world_def new_puts_def

subsection \<open>The stored format\<close>

text \<open>
  C1: whenever lines 83 to 95 produce bytes, whatever array (of one or several
  channels) and rate the decoder returned, the bytes are an uncompressed WAV file of
  one channel of 16-bit PCM samples at 16000 Hz; every \<^verbatim>\<open>fs.put\<close> that
  \<open>save_audio_to_mongo\<close> makes carries exactly these bytes, tagged with the sample
  rate 16000; and so does every \<^verbatim>\<open>fs.put\<close> of a whole submission.
\<close>

theorem stored_bytes_are_canonical_wav:
  "(normalize_audio env audio_bytes = Inr (Some wav_bytes) \<longrightarrow> wav_mono_pcm16 16000 wav_bytes) \<and>
   (\<forall>(req, res) \<in> set (new_puts w (snd (save_audio_to_mongo env audio_bytes spell user w))).
      normalize_audio env audio_bytes = Inr (Some (pr_data req)) \<and>
      wav_mono_pcm16 16000 (pr_data req) \<and> md_sample_rate (pr_metadata req) = 16000) \<and>
   (\<forall>(req, res) \<in> set (new_puts w (snd (main env username audio_input clicked w))).
      wav_mono_pcm16 16000 (pr_data req))"
proof -
  obtain r w1 where s: "save_audio_to_mongo env audio_bytes spell user w = (r, w1)"
    by (cases "save_audio_to_mongo env audio_bytes spell user w")
  have "normalize_audio env audio_bytes = Inr (Some (pr_data req)) \<and>
      wav_mono_pcm16 16000 (pr_data req) \<and> md_sample_rate (pr_metadata req) = 16000"
    if "(req, res) \<in> set (new_puts w w1)" for req res
    using save_audio_to_mongo_cases [OF s] that
    by (auto simp: new_puts_def make_request_def TARGET_SR_def dest: normalize_canonical)
  then show ?thesis
    using s main_puts [of _ _ w env username audio_input clicked]
    by (auto dest: normalize_canonical)
qed

theorem stored_bytes_are_canonical_wav_witness:
  "normalize_audio example_env [1] =
     Inr (Some [82, 73, 70, 70, 40, 0, 0, 0, 87, 65, 86, 69, 102, 109, 116, 32, 16, 0, 0, 0,
                1, 0, 1, 0, 128, 62, 0, 0, 0, 125, 0, 0, 2, 0, 16, 0, 100, 97, 116, 97,
                4, 0, 0, 0, 255, 95, 255, 127]) \<and>
   wav_mono_pcm16 16000
     [82, 73, 70, 70, 40, 0, 0, 0, 87, 65, 86, 69, 102, 109, 116, 32, 16, 0, 0, 0,
      1, 0, 1, 0, 128, 62, 0, 0, 0, 125, 0, 0, 2, 0, 16, 0, 100, 97, 116, 97,
      4, 0, 0, 0, 255, 95, 255, 127] \<and>
   map (pr_data \<circ> fst) (new_puts example_world
     (snd (save_audio_to_mongo example_env [1] (py ''Lumos'') (py ''ron'') example_world))) =
     [[82, 73, 70, 70, 40, 0, 0, 0, 87, 65, 86, 69, 102, 109, 116, 32, 16, 0, 0, 0,
       1, 0, 1, 0, 128, 62, 0, 0, 0, 125, 0, 0, 2, 0, 16, 0, 100, 97, 116, 97,
       4, 0, 0, 0, 255, 95, 255, 127]]"
  using stored_bytes_are_canonical_wav [of example_env "[1]"
      "[82, 73, 70, 70, 40, 0, 0, 0, 87, 65, 86, 69, 102, 109, 116, 32, 16, 0, 0, 0,
        1, 0, 1, 0, 128, 62, 0, 0, 0, 125, 0, 0, 2, 0, 16, 0, 100, 97, 116, 97,
        4, 0, 0, 0, 255, 95, 255, 127]"
      example_world "py ''Lumos''" "py ''ron''"]
  by (simp add: run_defs py_def)

subsection \<open>Rejected submissions\<close>

lemma main_rejected:
  "py_strip username = [] \<or> collect_audio audio_input SPELLS [] = [] \<Longrightarrow>
     \<exists>m. main env username audio_input True w = (Rejected, w\<lparr>st_errors := st_errors w @ [m]\<rparr>)"
  by (auto simp: main_def Let_def)

lemma sanitized_not_blank: "py_strip (sanitize_username name) \<noteq> []"
proof -
  have "\<not> is_space c" if "is_lower c \<or> is_digit c \<or> c = 95 \<or> c = 45" for c
    using that by (auto simp: is_space_def is_lower_def is_digit_def)
  then have "\<forall>c\<in>set (sanitize_username name). \<not> is_space c"
    using sanitize_charset [of _ name] by blast
  then have "py_strip (sanitize_username name) = sanitize_username name"
    by (rule strip_nonspace)
  then show ?thesis
    by (simp add: sanitize_nonempty)
qed

text \<open>
  C3: when the name is empty after trimming, or no label has a recording, the
  submission is rejected: there is no report, \<^verbatim>\<open>fs.put\<close> is not called and the store
  is not even connected to. The name that \<open>main\<close> trims and tests is the text of the
  field; the sanitized name is never empty after trimming, so that case, listed for
  completeness, does not arise.
\<close>

theorem empty_submission_rejected:
  "py_strip username = [] \<or> py_strip (sanitize_username (Some username)) = [] \<or>
   (\<forall>spell\<in>set SPELLS. audio_input spell = None) \<Longrightarrow>
     fst (main env username audio_input True w) = Rejected \<and>
     put_log (snd (main env username audio_input True w)) = put_log w \<and>
     new_puts w (snd (main env username audio_input True w)) = [] \<and>
     mongo_client (snd (main env username audio_input True w)) = mongo_client w \<and>
     mongo_fs (snd (main env username audio_input True w)) = mongo_fs w"
proof -
  assume "py_strip username = [] \<or> py_strip (sanitize_username (Some username)) = [] \<or>
    (\<forall>spell\<in>set SPELLS. audio_input spell = None)"
  then have "py_strip username = [] \<or> collect_audio audio_input SPELLS [] = []"
    by (simp add: collect_audio_Nil sanitized_not_blank)
  from main_rejected [OF this, of env w] show ?thesis
    by (auto simp: new_puts_def)
qed

theorem empty_submission_rejected_witness:
  "py_strip (py ''  '') = [] \<and>
   fst (main example_env (py ''  '') (\<lambda>spell. Some [1]) True example_world) = Rejected \<and>
   put_log (snd (main example_env (py ''  '') (\<lambda>spell. Some [1]) True example_world)) = []"
  using empty_submission_rejected [of "py ''  ''" "\<lambda>spell. Some [1]" example_env example_world]
  by (simp add: py_def py_strip_def is_space_def example_world_def)

subsection \<open>A store that is not configured\<close>

lemma save_unconfigured:
  "MONGO_URI env = [] \<Longrightarrow>
     fst (save_audio_to_mongo env b spell user w) = None \<and>
     put_log (snd (save_audio_to_mongo env b spell user w)) = put_log w"
  by (auto simp: save_audio_to_mongo_def save_audio_body_def get_gridfs_def
      split: sum.splits option.splits)

lemma save_unconfigured_valid:
  "MONGO_URI env = [] \<Longrightarrow> valid_recording env b \<Longrightarrow>
     save_audio_to_mongo env b spell user w = (None, w)"
  by (auto simp: save_audio_to_mongo_def save_audio_body_def get_gridfs_def valid_recording_def
      split: sum.splits option.splits)

lemma item_results_unconfigured:
  "MONGO_URI env = [] \<Longrightarrow> item_results env user files spells w = (rs, w1) \<Longrightarrow>
     rs = map (\<lambda>spell. (spell, None)) spells \<and> put_log w1 = put_log w"
proof (induction spells arbitrary: w rs)
  case Nil
  then show ?case by simp
next
  case (Cons a spells)
  show ?case
  proof (cases "map_of files a")
    case None
    then show ?thesis
      using Cons.prems Cons.IH [OF Cons.prems(1)] by (auto split: prod.splits)
  next
    case (Some b)
    obtain r0 w0 where s: "save_audio_to_mongo env b a user w = (r0, w0)"
      by (cases "save_audio_to_mongo env b a user w")
    with save_unconfigured [OF Cons.prems(1), of b a user w]
    have "r0 = None" "put_log w0 = put_log w" by simp_all
    then show ?thesis
      using Cons.prems Some s Cons.IH [OF Cons.prems(1), of w0] by (auto split: prod.splits)
  qed
qed

lemma item_results_unconfigured_valid:
  "MONGO_URI env = [] \<Longrightarrow> \<forall>spell b. map_of files spell = Some b \<longrightarrow> valid_recording env b \<Longrightarrow>
     item_results env user files spells w = (map (\<lambda>spell. (spell, None)) spells, w)"
  by (induction spells) (auto simp: save_unconfigured_valid split: option.splits)

lemma all_skipped:
  "saved_pairs (map (\<lambda>spell. (spell, None)) spells) = [] \<and>
   skipped_labels (map (\<lambda>spell. (spell, None)) spells) = spells"
  by (induction spells) auto

lemma main_report:
  "py_strip username \<noteq> [] \<Longrightarrow> spell \<in> set SPELLS \<Longrightarrow> audio_input spell \<noteq> None \<Longrightarrow>
     main env username audio_input True w =
       (case item_results env (sanitize_username (Some username))
               (collect_audio audio_input SPELLS []) SPELLS w of
          (rs, w1) \<Rightarrow>
            (Report (map (\<lambda>(spell, file_id). saved_entry spell file_id) (saved_pairs rs))
               (skipped_labels rs), w1))"
proof -
  assume a: "py_strip username \<noteq> []" "spell \<in> set SPELLS" "audio_input spell \<noteq> None"
  then have "collect_audio audio_input SPELLS [] \<noteq> []"
    by (auto simp: collect_audio_Nil)
  then show ?thesis
    using a(1) by (simp add: main_def Let_def process_spells_results split: prod.splits)
qed

text \<open>
  C9: without a connection string \<open>save_audio_to_mongo\<close> returns \<^verbatim>\<open>None\<close> and never
  calls \<^verbatim>\<open>fs.put\<close>; for a valid recording it changes nothing at all, so no error is
  shown either. A submission that is not rejected then reports nothing saved and all
  six labels skipped, and with one valid recording it leaves the world as it was.
\<close>

theorem unconfigured_store_skips:
  "MONGO_URI env = [] \<Longrightarrow>
     fst (save_audio_to_mongo env b spell user w) = None \<and>
     put_log (snd (save_audio_to_mongo env b spell user w)) = put_log w \<and>
     (valid_recording env b \<longrightarrow> save_audio_to_mongo env b spell user w = (None, w)) \<and>
     (py_strip username \<noteq> [] \<and> spell \<in> set SPELLS \<and> audio_input spell = Some b \<longrightarrow>
        fst (main env username audio_input True w) = Report [] SPELLS \<and>
        put_log (snd (main env username audio_input True w)) = put_log w) \<and>
     (py_strip username \<noteq> [] \<and> spell \<in> set SPELLS \<and> valid_recording env b \<and>
      audio_input = (\<lambda>s. None)(spell \<mapsto> b) \<longrightarrow>
        main env username audio_input True w = (Report [] SPELLS, w))"
proof -
  assume u: "MONGO_URI env = []"
  have m: "fst (main env username audio_input True w) = Report [] SPELLS \<and>
        put_log (snd (main env username audio_input True w)) = put_log w"
    if a: "py_strip username \<noteq> []" "spell \<in> set SPELLS" "audio_input spell = Some b"
  proof -
    obtain rs w1 where i: "item_results env (sanitize_username (Some username))
        (collect_audio audio_input SPELLS []) SPELLS w = (rs, w1)"
      by (cases "item_results env (sanitize_username (Some username))
        (collect_audio audio_input SPELLS []) SPELLS w")
    from item_results_unconfigured [OF u i] main_report [of username spell audio_input env w] a i
    show ?thesis by (simp add: all_skipped)
  qed
  have v: "main env username audio_input True w = (Report [] SPELLS, w)"
    if a: "py_strip username \<noteq> []" "spell \<in> set SPELLS" "valid_recording env b"
      "audio_input = (\<lambda>s. None)(spell \<mapsto> b)"
  proof -
    have "\<forall>s b'. map_of (collect_audio audio_input SPELLS []) s = Some b' \<longrightarrow>
        valid_recording env b'"
      using a(3,4) by (auto simp: collect_audio_map_of split: if_splits)
    from item_results_unconfigured_valid [OF u this]
      main_report [of username spell audio_input env w] a
    show ?thesis by (simp add: all_skipped)
  qed
  show ?thesis
    using save_unconfigured [OF u, of b spell user w] save_unconfigured_valid [OF u] m v
    by blast
qed

theorem unconfigured_store_skips_witness:
  "MONGO_URI (example_env\<lparr>MONGO_URI := []\<rparr>) = [] \<and>
   valid_recording (example_env\<lparr>MONGO_URI := []\<rparr>) [1] \<and>
   py_strip (py ''Ron'') \<noteq> [] \<and> py ''Nox'' \<in> set SPELLS \<and>
   main (example_env\<lparr>MONGO_URI := []\<rparr>) (py ''Ron'') ((\<lambda>s. None)(py ''Nox'' \<mapsto> [1])) True
     example_world = (Report [] SPELLS, example_world)"
proof -
  have v: "valid_recording (example_env\<lparr>MONGO_URI := []\<rparr>) [1]"
    by (simp add: valid_recording_def normalize_audio_def example_env_def
        resample_to_target_def TARGET_SR_def wav_write_def to_pcm16_def np_clip_def Let_def)
  have s: "py_strip (py ''Ron'') \<noteq> []" "py ''Nox'' \<in> set SPELLS"
    by (simp_all add: py_strip_def py_def is_space_def SPELLS_def)
  show ?thesis
    using unconfigured_store_skips [of "example_env\<lparr>MONGO_URI := []\<rparr>" "[1]" "py ''Nox''"
        "py ''Ron''" example_world "py ''Ron''" "(\<lambda>s. None)(py ''Nox'' \<mapsto> [1])"] v s
    by simp
qed

subsection \<open>The identity is never empty\<close>

text \<open>
  C10: \<open>sanitize_username\<close> never returns the empty string and returns only lowercase
  letters, digits, underscores and hyphens; \<^verbatim>\<open>"!!!"\<close> gives \<^verbatim>\<open>"anon"\<close>. A name that is
  not empty and consists of characters that are dropped (neither whitespace nor in
  \<^verbatim>\<open>[a-zA-Z0-9_-]\<close>) gives \<^verbatim>\<open>"anon"\<close> and is not empty after trimming, so with a
  recording the submission is processed, and every \<^verbatim>\<open>fs.put\<close> of the submission
  carries the user name \<^verbatim>\<open>"anon"\<close>.
\<close>

theorem sanitized_identity_nonempty:
  "sanitize_username name \<noteq> [] \<and>
   (\<forall>c\<in>set (sanitize_username name). is_lower c \<or> is_digit c \<or> c = 95 \<or> c = 45) \<and>
   sanitize_username (Some (py ''!!!'')) = py ''anon'' \<and>
   (username \<noteq> [] \<and> (\<forall>c\<in>set username. \<not> is_space c \<and> \<not> name_char c) \<longrightarrow>
      sanitize_username (Some username) = py ''anon'' \<and>
      py_strip username \<noteq> [] \<and>
      (spell \<in> set SPELLS \<and> audio_input spell \<noteq> None \<longrightarrow>
         (\<exists>saved skipped. fst (main env username audio_input True w) = Report saved skipped)) \<and>
      (\<forall>(req, res) \<in> set (new_puts w (snd (main env username audio_input True w))).
         md_username (pr_metadata req) = py ''anon''))"
proof -
  have a: "sanitize_username (Some (py ''!!!'')) = py ''anon''"
    by (simp add: sanitize_username_def str_defs)
  have b: "sanitize_username (Some username) = py ''anon'' \<and> py_strip username \<noteq> [] \<and>
      (spell \<in> set SPELLS \<and> audio_input spell \<noteq> None \<longrightarrow>
         (\<exists>saved skipped. fst (main env username audio_input True w) = Report saved skipped)) \<and>
      (\<forall>(req, res) \<in> set (new_puts w (snd (main env username audio_input True w))).
         md_username (pr_metadata req) = py ''anon'')"
    if u: "username \<noteq> []" "\<forall>c\<in>set username. \<not> is_space c \<and> \<not> name_char c"
  proof -
    have s: "sanitize_username (Some username) = py ''anon''"
      using u(2) by (rule sanitize_all_dropped)
    have t: "py_strip username \<noteq> []"
      using u by (simp add: strip_nonspace)
    have r: "\<exists>saved skipped. fst (main env username audio_input True w) = Report saved skipped"
      if "spell \<in> set SPELLS" "audio_input spell \<noteq> None"
      using main_report [of username spell audio_input env w] t that
      by (auto split: prod.splits)
    have p: "md_username (pr_metadata req) = py ''anon''"
      if "(req, res) \<in> set (new_puts w (snd (main env username audio_input True w)))"
      for req res
      using main_puts [OF that] s by simp
    from s t r p show ?thesis by blast
  qed
  from a b sanitize_nonempty [of name] sanitize_charset [of _ name] show ?thesis
    by blast
qed

theorem sanitized_identity_nonempty_witness:
  "py ''!!!'' \<noteq> [] \<and> filter (\<lambda>c. is_space c \<or> name_char c) (py ''!!!'') = [] \<and>
   py ''Lumos'' \<in> set SPELLS \<and>
   (\<exists>saved skipped. fst (main example_env (py ''!!!'') ((\<lambda>s. None)(py ''Lumos'' \<mapsto> [1])) True
      example_world) = Report saved skipped) \<and>
   map (md_username \<circ> pr_metadata \<circ> fst)
     (new_puts example_world
        (snd (main example_env (py ''!!!'') ((\<lambda>s. None)(py ''Lumos'' \<mapsto> [1])) True
           example_world))) = [py ''anon'']"
proof -
  have h: "py ''!!!'' \<noteq> [] \<and> (\<forall>c\<in>set (py ''!!!''). \<not> is_space c \<and> \<not> name_char c)"
    by (simp add: str_defs)
  have l: "py ''Lumos'' \<in> set SPELLS"
    by (simp add: SPELLS_def)
  have n: "map (md_username \<circ> pr_metadata \<circ> fst)
     (new_puts example_world
        (snd (main example_env (py ''!!!'') ((\<lambda>s. None)(py ''Lumos'' \<mapsto> [1])) True
           example_world))) = [py ''anon'']"
    by (simp add: run_defs str_defs)
  have i: "((\<lambda>s. None)(py ''Lumos'' \<mapsto> [1::8 word])) (py ''Lumos'') \<noteq> None"
    by simp
  from sanitized_identity_nonempty [of None "py ''!!!''" "py ''Lumos''"
      "(\<lambda>s. None)(py ''Lumos'' \<mapsto> [1])" example_env example_world] h l i
  have "\<exists>saved skipped. fst (main example_env (py ''!!!'') ((\<lambda>s. None)(py ''Lumos'' \<mapsto> [1])) True
      example_world) = Report saved skipped"
    by blast
  moreover have "filter (\<lambda>c. is_space c \<or> name_char c) (py ''!!!'') = []"
    by (simp add: str_defs)
  ultimately show ?thesis
    using h l n by blast
qed

subsection \<open>A reachable store\<close>

lemma save_reachable:
  assumes "store_reachable env" "valid_recording env b"
  shows "\<exists>file_id w1. save_audio_to_mongo env b spell user w = (Some file_id, w1) \<and> file_id \<noteq> []"
proof -
  obtain wav where n: "normalize_audio env b = Inr (Some wav)"
    using assms(2) by (auto simp: valid_recording_def split: sum.splits option.splits)
  have "\<exists>w0. get_gridfs env w = (Inr (Some ()), w0)"
    using assms(1) by (cases "mongo_fs w") (simp_all add: store_reachable_def get_gridfs_def)
  then obtain w0 where g: "get_gridfs env w = (Inr (Some ()), w0)"
    by blast
  let ?req = "make_request wav spell user (time_ms env w0)"
  have "case fs_put env w0 ?req of Inl e \<Rightarrow> False | Inr file_id \<Rightarrow> file_id \<noteq> []"
    using assms(1) by (simp add: store_reachable_def)
  then obtain file_id where p: "fs_put env w0 ?req = Inr file_id" "file_id \<noteq> []"
    by (cases "fs_put env w0 ?req") auto
  show ?thesis
    using n g p by (simp add: save_audio_to_mongo_def save_audio_body_def Let_def)
qed

lemma spells_distinct_lookup:
  "py ''Lumos'' \<in> set SPELLS" "py ''Nox'' \<in> set SPELLS"
  "py ''Nox'' \<noteq> py ''Lumos''"
  "py ''Alohomora'' \<noteq> py ''Lumos''" "py ''Alohomora'' \<noteq> py ''Nox''"
  "py ''Wingardium Leviosa'' \<noteq> py ''Lumos''" "py ''Wingardium Leviosa'' \<noteq> py ''Nox''"
  "py ''Accio'' \<noteq> py ''Lumos''" "py ''Accio'' \<noteq> py ''Nox''"
  "py ''Reparo'' \<noteq> py ''Lumos''" "py ''Reparo'' \<noteq> py ''Nox''"
  by (simp_all add: SPELLS_def py_def)

lemma main_report_shape:
  assumes "py_strip username \<noteq> []" "spell \<in> set SPELLS" "audio_input spell \<noteq> None"
  shows "\<exists>rs. item_results env (sanitize_username (Some username))
             (collect_audio audio_input SPELLS []) SPELLS w =
             (rs, snd (main env username audio_input True w)) \<and>
           fst (main env username audio_input True w) =
             Report (map (\<lambda>(spell, file_id). saved_entry spell file_id) (saved_pairs rs))
               (skipped_labels rs)"
  using main_report [of username spell audio_input env w] assms
  by (auto split: prod.splits)

text \<open>
  C8: the labels are the six of \<open>SPELLS\<close> in that order. In the report of a
  submission the labels of the saved entries and the skipped labels each follow the
  order of \<open>SPELLS\<close>, every label is in exactly one of the two lists, every saved
  entry has a non-empty identifier, and the writes to the store were made in the
  order of \<open>SPELLS\<close>; the recordings come as a function of the label, which has no
  order. With a reachable store and valid recordings for Lumos and Nox only, the name
  being Ron, the report has the entries of Lumos and of Nox, with non-empty
  identifiers, and the other four labels skipped.
\<close>

theorem report_in_canonical_order:
  "SPELLS = [py ''Lumos'', py ''Nox'', py ''Alohomora'', py ''Wingardium Leviosa'',
             py ''Accio'', py ''Reparo''] \<and>
   (py_strip username \<noteq> [] \<and> spell \<in> set SPELLS \<and> audio_input spell \<noteq> None \<longrightarrow>
      (\<exists>pairs skipped.
         fst (main env username audio_input True w) =
           Report (map (\<lambda>(spell, file_id). saved_entry spell file_id) pairs) skipped \<and>
         subseq (map fst pairs) SPELLS \<and> subseq skipped SPELLS \<and>
         mset (map fst pairs) + mset skipped = mset SPELLS \<and>
         (\<forall>(spell, file_id) \<in> set pairs. file_id \<noteq> [])) \<and>
      subseq (map (\<lambda>(req, res). md_spell (pr_metadata req))
                (new_puts w (snd (main env username audio_input True w)))) SPELLS) \<and>
   (store_reachable env \<and> valid_recording env b1 \<and> valid_recording env b2 \<and>
    audio_input (py ''Lumos'') = Some b1 \<and> audio_input (py ''Nox'') = Some b2 \<and>
    (\<forall>l. l \<noteq> py ''Lumos'' \<and> l \<noteq> py ''Nox'' \<longrightarrow> audio_input l = None) \<longrightarrow>
      (\<exists>id1 id2. id1 \<noteq> [] \<and> id2 \<noteq> [] \<and>
         fst (main env (py ''Ron'') audio_input True w) =
           Report [saved_entry (py ''Lumos'') id1, saved_entry (py ''Nox'') id2]
             [py ''Alohomora'', py ''Wingardium Leviosa'', py ''Accio'', py ''Reparo'']))"
proof -
  have general: "(\<exists>pairs skipped.
         fst (main env username audio_input True w) =
           Report (map (\<lambda>(spell, file_id). saved_entry spell file_id) pairs) skipped \<and>
         subseq (map fst pairs) SPELLS \<and> subseq skipped SPELLS \<and>
         mset (map fst pairs) + mset skipped = mset SPELLS \<and>
         (\<forall>(spell, file_id) \<in> set pairs. file_id \<noteq> [])) \<and>
      subseq (map (\<lambda>(req, res). md_spell (pr_metadata req))
                (new_puts w (snd (main env username audio_input True w)))) SPELLS"
    if a: "py_strip username \<noteq> []" "spell \<in> set SPELLS" "audio_input spell \<noteq> None"
  proof -
    from main_report_shape [of username spell audio_input env w] a obtain rs where
      i: "item_results env (sanitize_username (Some username))
             (collect_audio audio_input SPELLS []) SPELLS w =
             (rs, snd (main env username audio_input True w))"
      and m: "fst (main env username audio_input True w) =
             Report (map (\<lambda>(spell, file_id). saved_entry spell file_id) (saved_pairs rs))
               (skipped_labels rs)"
      by blast
    have l: "map fst rs = SPELLS"
      using i by (rule item_results_labels)
    have 1: "subseq (map fst (saved_pairs rs)) SPELLS" "subseq (skipped_labels rs) SPELLS"
      "mset (map fst (saved_pairs rs)) + mset (skipped_labels rs) = mset SPELLS"
      using saved_pairs_subseq [of rs] skipped_labels_subseq [of rs]
        saved_skipped_partition [of rs] l by simp_all
    have 2: "\<forall>(spell, file_id) \<in> set (saved_pairs rs). file_id \<noteq> []"
      by (auto simp: saved_pairs_mem)
    from item_results_log [OF i] have 3:
      "subseq (map (\<lambda>(req, res). md_spell (pr_metadata req))
                (new_puts w (snd (main env username audio_input True w)))) SPELLS"
      by simp
    from m 1 2 3 show ?thesis by blast
  qed
  have ron: "\<exists>id1 id2. id1 \<noteq> [] \<and> id2 \<noteq> [] \<and>
         fst (main env (py ''Ron'') audio_input True w) =
           Report [saved_entry (py ''Lumos'') id1, saved_entry (py ''Nox'') id2]
             [py ''Alohomora'', py ''Wingardium Leviosa'', py ''Accio'', py ''Reparo'']"
    if a: "store_reachable env" "valid_recording env b1" "valid_recording env b2"
      "audio_input (py ''Lumos'') = Some b1" "audio_input (py ''Nox'') = Some b2"
      "\<forall>l. l \<noteq> py ''Lumos'' \<and> l \<noteq> py ''Nox'' \<longrightarrow> audio_input l = None"
  proof -
    let ?user = "sanitize_username (Some (py ''Ron''))"
    let ?files = "collect_audio audio_input SPELLS []"
    have f: "map_of ?files (py ''Lumos'') = Some b1" "map_of ?files (py ''Nox'') = Some b2"
      "map_of ?files (py ''Alohomora'') = None"
      "map_of ?files (py ''Wingardium Leviosa'') = None"
      "map_of ?files (py ''Accio'') = None" "map_of ?files (py ''Reparo'') = None"
      using a(4,5,6) by (simp_all add: collect_audio_map_of spells_distinct_lookup)
    obtain id1 w1 where s1: "save_audio_to_mongo env b1 (py ''Lumos'') ?user w = (Some id1, w1)"
      "id1 \<noteq> []"
      using save_reachable [OF a(1,2)] by blast
    obtain id2 w2 where s2: "save_audio_to_mongo env b2 (py ''Nox'') ?user w1 = (Some id2, w2)"
      "id2 \<noteq> []"
      using save_reachable [OF a(1,3)] by blast
    have "process_spells env ?user ?files SPELLS (w, [], []) =
        (w2, [saved_entry (py ''Lumos'') id1, saved_entry (py ''Nox'') id2],
         [py ''Alohomora'', py ''Wingardium Leviosa'', py ''Accio'', py ''Reparo''])"
      unfolding SPELLS_def [symmetric]
      by (subst SPELLS_def) (simp add: f s1 s2)
    moreover have "py_strip (py ''Ron'') \<noteq> []" "?files \<noteq> []"
      using f(1) by (auto simp: py_strip_def py_def is_space_def)
    ultimately have "fst (main env (py ''Ron'') audio_input True w) =
           Report [saved_entry (py ''Lumos'') id1, saved_entry (py ''Nox'') id2]
             [py ''Alohomora'', py ''Wingardium Leviosa'', py ''Accio'', py ''Reparo'']"
      by (simp add: main_def Let_def)
    with s1(2) s2(2) show ?thesis by blast
  qed
  from general ron show ?thesis
    by (simp only: SPELLS_def) blast
qed

theorem report_in_canonical_order_witness:
  "store_reachable example_env \<and> valid_recording example_env [1] \<and>
   valid_recording example_env [2] \<and>
   fst (main example_env (py ''Ron'') ((\<lambda>s. None)(py ''Nox'' \<mapsto> [2], py ''Lumos'' \<mapsto> [1]))
          True example_world) =
     Report [saved_entry (py ''Lumos'') (py ''65f0c0ffee''),
             saved_entry (py ''Nox'') (py ''65f0c0ffee'')]
       [py ''Alohomora'', py ''Wingardium Leviosa'', py ''Accio'', py ''Reparo'']"
proof -
  let ?input = "(\<lambda>s. None)(py ''Nox'' \<mapsto> [2::8 word], py ''Lumos'' \<mapsto> [1])"
  have r: "store_reachable example_env"
    by (simp add: store_reachable_def example_env_def py_def)
  have v: "valid_recording example_env [1]" "valid_recording example_env [2]"
    by (simp_all add: valid_recording_def normalize_audio_def example_env_def
        resample_to_target_def TARGET_SR_def wav_write_def to_pcm16_def np_clip_def Let_def)
  have i: "?input (py ''Lumos'') = Some [1]" "?input (py ''Nox'') = Some [2]"
    "\<forall>l. l \<noteq> py ''Lumos'' \<and> l \<noteq> py ''Nox'' \<longrightarrow> ?input l = None"
    by (simp_all add: py_def)
  from report_in_canonical_order [of "py ''Ron''" "py ''Lumos''" ?input example_env
      example_world "[1]" "[2]"] r v i
  have e: "\<exists>id1 id2. id1 \<noteq> [] \<and> id2 \<noteq> [] \<and>
         fst (main example_env (py ''Ron'') ?input True example_world) =
           Report [saved_entry (py ''Lumos'') id1, saved_entry (py ''Nox'') id2]
             [py ''Alohomora'', py ''Wingardium Leviosa'', py ''Accio'', py ''Reparo'']"
    by blast
  have n: "fst (main example_env (py ''Ron'') ?input True example_world) =
     Report [saved_entry (py ''Lumos'') (py ''65f0c0ffee''),
             saved_entry (py ''Nox'') (py ''65f0c0ffee'')]
       [py ''Alohomora'', py ''Wingardium Leviosa'', py ''Accio'', py ''Reparo'']"
    by (simp add: run_defs str_defs Let_def)
  from r v e n show ?thesis
    by blast
qed

subsection \<open>Failures of one label\<close>

lemma normalize_decode_failure:
  "sf_read env b = Inl e \<Longrightarrow> normalize_audio env b = Inl e"
  by (simp add: normalize_audio_def)

lemma normalize_empty:
  "sf_read env b = Inr (None, sr) \<or> (sf_read env b = Inr (Some a, sr) \<and> nd_size a = 0) \<Longrightarrow>
     normalize_audio env b = Inr None"
  by (auto simp: normalize_audio_def)

lemma body_normalize_failure:
  "normalize_audio env b = Inl e \<Longrightarrow> save_audio_body env b spell user w = (Inl e, w)"
  "normalize_audio env b = Inr None \<Longrightarrow> save_audio_body env b spell user w = (Inr None, w)"
  by (simp_all add: save_audio_body_def)

lemma body_store_failure:
  "normalize_audio env b = Inr (Some wav) \<Longrightarrow> get_gridfs env w = (Inl e, w0) \<Longrightarrow>
     save_audio_body env b spell user w = (Inl e, w0)"
  "normalize_audio env b = Inr (Some wav) \<Longrightarrow> get_gridfs env w = (Inr (Some ()), w0) \<Longrightarrow>
     fs_put env w0 (make_request wav spell user (time_ms env w0)) = Inl e \<Longrightarrow>
     fst (save_audio_body env b spell user w) = Inl e"
  by (simp_all add: save_audio_body_def Let_def)

lemma save_catches:
  "fst (save_audio_body env b spell user w) = Inl e \<Longrightarrow>
     fst (save_audio_to_mongo env b spell user w) = None"
  by (cases "save_audio_body env b spell user w") (simp add: save_audio_to_mongo_def)

lemma save_no_change:
  "save_audio_body env b spell user w = (Inr None, w) \<Longrightarrow>
     save_audio_to_mongo env b spell user w = (None, w)"
  by (simp add: save_audio_to_mongo_def)

lemma failed_save_stores_nothing:
  assumes "fst (save_audio_to_mongo env b spell user w) = None"
    and "(req, res) \<in> set (new_puts w (snd (save_audio_to_mongo env b spell user w)))"
  shows "\<exists>e. res = Inl e"
proof -
  obtain r w1 where s: "save_audio_to_mongo env b spell user w = (r, w1)"
    by (cases "save_audio_to_mongo env b spell user w")
  with assms have "r = None" "(req, res) \<in> set (new_puts w w1)"
    by simp_all
  with save_new_puts [OF s, of req res] show ?thesis
    by (cases res) auto
qed

lemma failed_step:
  "map_of audio_files spell = Some b \<Longrightarrow>
   fst (save_audio_to_mongo env b spell user w) = None \<Longrightarrow>
     process_spells env user audio_files (spell # rest) (w, saved, skipped) =
       process_spells env user audio_files rest
         (snd (save_audio_to_mongo env b spell user w), saved, skipped @ [spell])"
  by (cases "save_audio_to_mongo env b spell user w") simp

lemma report_of_failing_label:
  assumes a: "py_strip username \<noteq> []" "spell \<in> set SPELLS" "audio_input spell = Some b"
  shows "\<exists>pairs skipped.
      fst (main env username audio_input True w) =
        Report (map (\<lambda>(l, file_id). saved_entry l file_id) pairs) skipped \<and>
      mset (map fst pairs) + mset skipped = mset SPELLS \<and>
      ((\<forall>w'. fst (save_audio_to_mongo env b spell (sanitize_username (Some username)) w') = None)
         \<longrightarrow> spell \<in> set skipped \<and> spell \<notin> fst ` set pairs) \<and>
      (\<forall>l b'. l \<in> set SPELLS \<and> audio_input l = Some b' \<and>
         (\<forall>w'. \<exists>file_id. file_id \<noteq> [] \<and>
            fst (save_audio_to_mongo env b' l (sanitize_username (Some username)) w') =
              Some file_id)
         \<longrightarrow> l \<in> fst ` set pairs \<and> l \<notin> set skipped)"
proof -
  let ?user = "sanitize_username (Some username)"
  let ?files = "collect_audio audio_input SPELLS []"
  have a3: "audio_input spell \<noteq> None"
    using a(3) by simp
  from main_report_shape [of username spell audio_input env w] a(1,2) a3 obtain rs where
    i: "item_results env ?user ?files SPELLS w = (rs, snd (main env username audio_input True w))"
    and m: "fst (main env username audio_input True w) =
             Report (map (\<lambda>(l, file_id). saved_entry l file_id) (saved_pairs rs))
               (skipped_labels rs)"
    by blast
  have l: "map fst rs = SPELLS"
    using i by (rule item_results_labels)
  have part: "mset (map fst (saved_pairs rs)) + mset (skipped_labels rs) = mset SPELLS"
    using saved_skipped_partition [of rs] l by simp
  have origin: "\<exists>w'. r = fst (save_audio_to_mongo env b' l' ?user w')"
    if "(l', r) \<in> set rs" "l' \<in> set SPELLS" "audio_input l' = Some b'" for l' r b'
  proof -
    have "map_of ?files l' = Some b'"
      using that(2,3) by (simp add: collect_audio_map_of)
    with item_results_origin [OF i that(1)] show ?thesis
      by simp
  qed
  have present: "\<exists>r. (l', r) \<in> set rs" if "l' \<in> set SPELLS" for l'
  proof -
    from that l have "l' \<in> fst ` set rs"
      by (metis set_map)
    then show ?thesis by auto
  qed
  have fail: "spell \<in> set (skipped_labels rs) \<and> spell \<notin> fst ` set (saved_pairs rs)"
    if f: "\<forall>w'. fst (save_audio_to_mongo env b spell ?user w') = None"
  proof -
    have n: "r = None" if "(spell, r) \<in> set rs" for r
      using origin [OF that a(2,3)] f by auto
    from present [OF a(2)] obtain r where "(spell, r) \<in> set rs"
      by blast
    with n have "(spell, None) \<in> set rs"
      by blast
    then have 1: "spell \<in> set (skipped_labels rs)"
      by (simp add: skipped_labels_mem)
    have 2: "spell \<notin> fst ` set (saved_pairs rs)"
    proof
      assume "spell \<in> fst ` set (saved_pairs rs)"
      then obtain file_id where "(spell, file_id) \<in> set (saved_pairs rs)"
        by auto
      then have "(spell, Some file_id) \<in> set rs"
        by (simp add: saved_pairs_mem)
      from n [OF this] show False by simp
    qed
    from 1 2 show ?thesis by simp
  qed
  have ok: "l' \<in> fst ` set (saved_pairs rs) \<and> l' \<notin> set (skipped_labels rs)"
    if s: "l' \<in> set SPELLS" "audio_input l' = Some b'"
      "\<forall>w'. \<exists>file_id. file_id \<noteq> [] \<and>
         fst (save_audio_to_mongo env b' l' ?user w') = Some file_id" for l' b'
  proof -
    have n: "\<exists>file_id. file_id \<noteq> [] \<and> r = Some file_id" if "(l', r) \<in> set rs" for r
      using origin [OF that s(1,2)] s(3) by metis
    from present [OF s(1)] obtain r where r: "(l', r) \<in> set rs"
      by blast
    with n obtain file_id where "file_id \<noteq> []" "(l', Some file_id) \<in> set rs"
      by blast
    then have "(l', file_id) \<in> set (saved_pairs rs)"
      by (simp add: saved_pairs_mem)
    then have 1: "l' \<in> fst ` set (saved_pairs rs)"
      by force
    have 2: "l' \<notin> set (skipped_labels rs)"
    proof
      assume "l' \<in> set (skipped_labels rs)"
      then have "(l', None) \<in> set rs \<or> (l', Some []) \<in> set rs"
        by (simp add: skipped_labels_mem)
      then show False
        using n by auto
    qed
    from 1 2 show ?thesis by simp
  qed
  show ?thesis
  proof (intro exI conjI)
    show "fst (main env username audio_input True w) =
        Report (map (\<lambda>(l, file_id). saved_entry l file_id) (saved_pairs rs))
          (skipped_labels rs)"
      by (rule m)
    show "mset (map fst (saved_pairs rs)) + mset (skipped_labels rs) = mset SPELLS"
      by (rule part)
    show "(\<forall>w'. fst (save_audio_to_mongo env b spell ?user w') = None) \<longrightarrow>
        spell \<in> set (skipped_labels rs) \<and> spell \<notin> fst ` set (saved_pairs rs)"
      using fail by (intro impI)
    show "\<forall>l b'. l \<in> set SPELLS \<and> audio_input l = Some b' \<and>
         (\<forall>w'. \<exists>file_id. file_id \<noteq> [] \<and>
            fst (save_audio_to_mongo env b' l ?user w') = Some file_id)
         \<longrightarrow> l \<in> fst ` set (saved_pairs rs) \<and> l \<notin> set (skipped_labels rs)"
      using ok by (intro allI impI) (elim conjE)
  qed
qed

text \<open>
  C2: a failure while one label is processed makes that label skipped and stops
  nothing else. In order: a decoder that raises makes lines 83 to 95 raise; an
  exception of lines 83 to 95 (decoding, resampling, encoding), of the connection to
  the store or of \<^verbatim>\<open>fs.put\<close> leaves the body of \<open>save_audio_to_mongo\<close> as an exception;
  every exception of the body is caught and gives \<^verbatim>\<open>None\<close>; a decoder that returns
  nothing or an empty array gives \<^verbatim>\<open>None\<close> and changes nothing; a call that returns
  \<^verbatim>\<open>None\<close> has stored nothing (a write it made has raised); the loop then adds the
  label to the skipped ones, keeps the saved ones and goes on with the remaining
  labels. For the whole submission there is always a report, every label is in
  exactly one of its two lists, a label whose recording fails is skipped and not
  saved, and every label whose recording succeeds is saved and not skipped.
\<close>

theorem failure_skips_only_that_label:
  "(sf_read env b = Inl e \<longrightarrow> normalize_audio env b = Inl e) \<and>
   (normalize_audio env b = Inl e \<longrightarrow> save_audio_body env b spell user w = (Inl e, w)) \<and>
   (normalize_audio env b = Inr (Some wav) \<and> get_gridfs env w = (Inl e, w0) \<longrightarrow>
      save_audio_body env b spell user w = (Inl e, w0)) \<and>
   (normalize_audio env b = Inr (Some wav) \<and> get_gridfs env w = (Inr (Some ()), w0) \<and>
    fs_put env w0 (make_request wav spell user (time_ms env w0)) = Inl e \<longrightarrow>
      fst (save_audio_body env b spell user w) = Inl e) \<and>
   (fst (save_audio_body env b spell user w) = Inl e \<longrightarrow>
      fst (save_audio_to_mongo env b spell user w) = None) \<and>
   (sf_read env b = Inr (None, sr) \<or> (sf_read env b = Inr (Some a, sr) \<and> nd_size a = 0) \<longrightarrow>
      save_audio_to_mongo env b spell user w = (None, w)) \<and>
   (fst (save_audio_to_mongo env b spell user w) = None \<longrightarrow>
      (\<forall>(req, res) \<in> set (new_puts w (snd (save_audio_to_mongo env b spell user w))).
         \<exists>e'. res = Inl e')) \<and>
   (map_of audio_files spell = Some b \<and>
    fst (save_audio_to_mongo env b spell user w) = None \<longrightarrow>
      process_spells env user audio_files (spell # rest) (w, saved, skipped) =
        process_spells env user audio_files rest
          (snd (save_audio_to_mongo env b spell user w), saved, skipped @ [spell])) \<and>
   (py_strip username \<noteq> [] \<and> spell \<in> set SPELLS \<and> audio_input spell = Some b \<longrightarrow>
      (\<exists>pairs skipped'.
         fst (main env username audio_input True w) =
           Report (map (\<lambda>(l, file_id). saved_entry l file_id) pairs) skipped' \<and>
         mset (map fst pairs) + mset skipped' = mset SPELLS \<and>
         ((\<forall>w'. fst (save_audio_to_mongo env b spell (sanitize_username (Some username)) w') =
                  None)
            \<longrightarrow> spell \<in> set skipped' \<and> spell \<notin> fst ` set pairs) \<and>
         (\<forall>l b'. l \<in> set SPELLS \<and> audio_input l = Some b' \<and>
            (\<forall>w'. \<exists>file_id. file_id \<noteq> [] \<and>
               fst (save_audio_to_mongo env b' l (sanitize_username (Some username)) w') =
                 Some file_id)
            \<longrightarrow> l \<in> fst ` set pairs \<and> l \<notin> set skipped')))"
proof -
  have 1: "sf_read env b = Inl e \<longrightarrow> normalize_audio env b = Inl e"
    by (simp add: normalize_decode_failure)
  have 2: "normalize_audio env b = Inl e \<longrightarrow> save_audio_body env b spell user w = (Inl e, w)"
    by (simp add: body_normalize_failure)
  have 3: "normalize_audio env b = Inr (Some wav) \<and> get_gridfs env w = (Inl e, w0) \<longrightarrow>
      save_audio_body env b spell user w = (Inl e, w0)"
    by (simp add: body_store_failure)
  have 4: "normalize_audio env b = Inr (Some wav) \<and> get_gridfs env w = (Inr (Some ()), w0) \<and>
    fs_put env w0 (make_request wav spell user (time_ms env w0)) = Inl e \<longrightarrow>
      fst (save_audio_body env b spell user w) = Inl e"
    using body_store_failure(2) [of env b wav w w0 spell user e] by blast
  have 5: "fst (save_audio_body env b spell user w) = Inl e \<longrightarrow>
      fst (save_audio_to_mongo env b spell user w) = None"
    by (simp add: save_catches)
  have 6: "sf_read env b = Inr (None, sr) \<or> (sf_read env b = Inr (Some a, sr) \<and> nd_size a = 0)
      \<longrightarrow> save_audio_to_mongo env b spell user w = (None, w)"
    using normalize_empty [of env b sr a] body_normalize_failure(2) [of env b spell user w]
      save_no_change [of env b spell user w] by blast
  have 7: "fst (save_audio_to_mongo env b spell user w) = None \<longrightarrow>
      (\<forall>(req, res) \<in> set (new_puts w (snd (save_audio_to_mongo env b spell user w))).
         \<exists>e'. res = Inl e')"
    using failed_save_stores_nothing [of env b spell user w] by auto
  have 8: "map_of audio_files spell = Some b \<and>
    fst (save_audio_to_mongo env b spell user w) = None \<longrightarrow>
      process_spells env user audio_files (spell # rest) (w, saved, skipped) =
        process_spells env user audio_files rest
          (snd (save_audio_to_mongo env b spell user w), saved, skipped @ [spell])"
    using failed_step [of audio_files spell b env user w rest saved skipped] by blast
  have 9: "py_strip username \<noteq> [] \<and> spell \<in> set SPELLS \<and> audio_input spell = Some b \<longrightarrow>
      (\<exists>pairs skipped'.
         fst (main env username audio_input True w) =
           Report (map (\<lambda>(l, file_id). saved_entry l file_id) pairs) skipped' \<and>
         mset (map fst pairs) + mset skipped' = mset SPELLS \<and>
         ((\<forall>w'. fst (save_audio_to_mongo env b spell (sanitize_username (Some username)) w') =
                  None)
            \<longrightarrow> spell \<in> set skipped' \<and> spell \<notin> fst ` set pairs) \<and>
         (\<forall>l b'. l \<in> set SPELLS \<and> audio_input l = Some b' \<and>
            (\<forall>w'. \<exists>file_id. file_id \<noteq> [] \<and>
               fst (save_audio_to_mongo env b' l (sanitize_username (Some username)) w') =
                 Some file_id)
            \<longrightarrow> l \<in> fst ` set pairs \<and> l \<notin> set skipped'))"
    by (intro impI, elim conjE) (rule report_of_failing_label)
  show ?thesis
    by (intro conjI 1 2 3 4 5 6 7 8 9)
qed

theorem failure_skips_only_that_label_witness:
  "sf_read example_env [] = Inl (Exception (py ''Format not recognised'')) \<and>
   fst (save_audio_to_mongo example_env [] (py ''Lumos'') (py ''ron'') example_world) = None \<and>
   py_strip (py ''Ron'') \<noteq> [] \<and> py ''Lumos'' \<in> set SPELLS \<and>
   fst (main example_env (py ''Ron'') ((\<lambda>s. None)(py ''Lumos'' \<mapsto> [], py ''Nox'' \<mapsto> [1]))
          True example_world) =
     Report [saved_entry (py ''Nox'') (py ''65f0c0ffee'')]
       [py ''Lumos'', py ''Alohomora'', py ''Wingardium Leviosa'', py ''Accio'', py ''Reparo'']"
proof -
  let ?e = "Exception (py ''Format not recognised'')"
  let ?input = "(\<lambda>s. None)(py ''Lumos'' \<mapsto> ([]::bytes), py ''Nox'' \<mapsto> [1])"
  note t = failure_skips_only_that_label [where env = example_env and b = "[]" and e = ?e
      and spell = "py ''Lumos''" and user = "py ''ron''" and w = example_world
      and wav = "[]" and ?w0.0 = example_world and sr = 0 and a = "Arr1 []"
      and audio_files = "[]" and rest = "[]" and saved = "[]" and skipped = "[]"
      and username = "py ''Ron''" and audio_input = ?input]
  have d: "sf_read example_env [] = Inl ?e"
    by (simp add: example_env_def)
  from t have "sf_read example_env [] = Inl ?e \<longrightarrow> normalize_audio example_env [] = Inl ?e"
    by blast
  with d have n: "normalize_audio example_env [] = Inl ?e"
    by blast
  from t have "normalize_audio example_env [] = Inl ?e \<longrightarrow>
      save_audio_body example_env [] (py ''Lumos'') (py ''ron'') example_world =
        (Inl ?e, example_world)"
    by blast
  with n have b: "fst (save_audio_body example_env [] (py ''Lumos'') (py ''ron'') example_world)
      = Inl ?e"
    by simp
  from t have "fst (save_audio_body example_env [] (py ''Lumos'') (py ''ron'') example_world)
      = Inl ?e \<longrightarrow>
      fst (save_audio_to_mongo example_env [] (py ''Lumos'') (py ''ron'') example_world) = None"
    by blast
  with b have s: "fst (save_audio_to_mongo example_env [] (py ''Lumos'') (py ''ron'')
      example_world) = None"
    by blast
  have h: "py_strip (py ''Ron'') \<noteq> []" "py ''Lumos'' \<in> set SPELLS"
    by (simp_all add: py_strip_def py_def is_space_def SPELLS_def)
  have m: "fst (main example_env (py ''Ron'') ?input True example_world) =
     Report [saved_entry (py ''Nox'') (py ''65f0c0ffee'')]
       [py ''Lumos'', py ''Alohomora'', py ''Wingardium Leviosa'', py ''Accio'', py ''Reparo'']"
    by (simp add: run_defs str_defs Let_def)
  from d s h m show ?thesis
    by blast
qed

end
